theory Spec2Isabelle
  imports Complex_Main "HOL-Library.Multiset"
begin

section \<open>Python values used by the API handler\<close>

text \<open>
  A parsed JSON document, as \<^verbatim>\<open>response.json()\<close> returns it: \<^verbatim>\<open>None\<close>, a bool, an int,
  a float (by its rational value), a str, a list or a dict (an association list; the first
  binding of a key is the one looked up).
\<close>

datatype json =
    JNull
  | JBool bool
  | JInt int
  | JFloat rat
  | JStr string
  | JArr "json list"
  | JObj "(string \<times> json) list"

text \<open>
  The exceptions that are told apart. \<open>TypeError\<close> carries its message (the text of
  CPython 3.11), \<open>KeyError\<close> the missing key.
\<close>

datatype exn =
    TypeError string
  | KeyError string
  | UnboundLocalError string
  | OperationalError
  | NotNullViolation string
  | ForeignKeyViolation
  | InvalidRowCount

fun startswith :: "string \<Rightarrow> string \<Rightarrow> bool" where
  "startswith s [] = True"
| "startswith [] (c # k) = False"
| "startswith (d # s) (c # k) = (d = c \<and> startswith s k)"

fun substring :: "string \<Rightarrow> string \<Rightarrow> bool" where
  "substring k [] = (k = [])"
| "substring k (d # s) = (startswith (d # s) k \<or> substring k s)"

fun type_name :: "json \<Rightarrow> string" where
  "type_name JNull = ''NoneType''"
| "type_name (JBool b) = ''bool''"
| "type_name (JInt i) = ''int''"
| "type_name (JFloat r) = ''float''"
| "type_name (JStr s) = ''str''"
| "type_name (JArr xs) = ''list''"
| "type_name (JObj kvs) = ''dict''"

text \<open>
  \<^verbatim>\<open>k in v\<close> for a str \<open>k\<close>: key membership on a dict, element equality on a list, substring
  on a str, \<^verbatim>\<open>TypeError\<close> on anything else.
\<close>

fun py_in :: "string \<Rightarrow> json \<Rightarrow> exn + bool" where
  "py_in k (JObj kvs) = Inr (k \<in> set (map fst kvs))"
| "py_in k (JArr xs) = Inr (JStr k \<in> set xs)"
| "py_in k (JStr s) = Inr (substring k s)"
| "py_in k v =
     Inl (TypeError (''argument of type '' @ [CHR 0x27] @ type_name v @ [CHR 0x27] @ '' is not iterable''))"

text \<open>\<^verbatim>\<open>v[k]\<close> for a str \<open>k\<close>: only a dict can be indexed by a str.\<close>

fun py_getitem :: "json \<Rightarrow> string \<Rightarrow> exn + json" where
  "py_getitem (JObj kvs) k = (case map_of kvs k of None \<Rightarrow> Inl (KeyError k) | Some v \<Rightarrow> Inr v)"
| "py_getitem (JArr xs) k = Inl (TypeError ''list indices must be integers or slices, not str'')"
| "py_getitem (JStr s) k =
     Inl (TypeError (''string indices must be integers, not '' @ [CHR 0x27] @ ''str'' @ [CHR 0x27]))"
| "py_getitem v k =
     Inl (TypeError ([CHR 0x27] @ type_name v @ [CHR 0x27] @ '' object is not subscriptable''))"

text \<open>\<^verbatim>\<open>str(e)\<close> of an exception.\<close>

fun str_exn :: "exn \<Rightarrow> string" where
  "str_exn (TypeError m) = m"
| "str_exn (KeyError k) = [CHR 0x27] @ k @ [CHR 0x27]"
| "str_exn (UnboundLocalError m) = m"
| "str_exn OperationalError = ''OperationalError''"
| "str_exn (NotNullViolation m) = m"
| "str_exn ForeignKeyViolation = ''ForeignKeyViolation''"
| "str_exn InvalidRowCount = ''InvalidRowCount''"

definition digit_char :: "nat \<Rightarrow> char" where
  "digit_char d =
     (if d = 0 then CHR ''0'' else if d = 1 then CHR ''1'' else if d = 2 then CHR ''2''
      else if d = 3 then CHR ''3'' else if d = 4 then CHR ''4'' else if d = 5 then CHR ''5''
      else if d = 6 then CHR ''6'' else if d = 7 then CHR ''7'' else if d = 8 then CHR ''8''
      else CHR ''9'')"

text \<open>The decimal text of a status code, as an f-string prints it.\<close>

fun str_nat :: "nat \<Rightarrow> string" where
  "str_nat n = (if n < 10 then [digit_char n] else str_nat (n div 10) @ [digit_char (n mod 10)])"

declare str_nat.simps [simp del]



section \<open>Rate limiter\<close>







section \<open>Weather fetcher\<close>

text \<open>
  What the HTTP part of \<^verbatim>\<open>get_weather_for_city\<close> (the rate-limited GET,
  \<^verbatim>\<open>raise_for_status\<close>, \<^verbatim>\<open>response.json()\<close>) does for one call: it raises
  \<^verbatim>\<open>requests.exceptions.Timeout\<close>, raises \<^verbatim>\<open>HTTPError\<close> for a response with the given
  status code, raises any other exception (with its \<^verbatim>\<open>str\<close>), or yields the parsed body.
\<close>

datatype http_event =
    Timeout
  | HTTPError nat
  | OtherException string
  | Body json

text \<open>
  What comes back from the network: \<^verbatim>\<open>requests.get\<close> raises \<^verbatim>\<open>Timeout\<close>, raises another
  exception, or returns a response with a status code and a body; the body is JSON text,
  or text for which \<^verbatim>\<open>response.json()\<close> raises (with the \<^verbatim>\<open>str\<close> of that exception).
\<close>

datatype response_body = NotJson string | Json json

datatype http_reply =
    RequestTimeout
  | RequestError string
  | Reply nat response_body

text \<open>
  \<^verbatim>\<open>Response.raise_for_status\<close> of the requests library raises \<^verbatim>\<open>HTTPError\<close> exactly for
  the client and server error statuses, 400 to 599.
\<close>

definition raise_for_status :: "nat \<Rightarrow> bool" where
  "raise_for_status status_code = (400 \<le> status_code \<and> status_code < 600)"

text \<open>The first three statements of the \<^verbatim>\<open>try\<close> block, from the reply to the event.\<close>

definition http_part :: "http_reply \<Rightarrow> http_event" where
  "http_part r =
     (case r of
        RequestTimeout \<Rightarrow> Timeout
      | RequestError msg \<Rightarrow> OtherException msg
      | Reply status_code body \<Rightarrow>
          if raise_for_status status_code then HTTPError status_code
          else (case body of NotJson msg \<Rightarrow> OtherException msg | Json data \<Rightarrow> Body data))"

text \<open>
  The two storage methods \<^verbatim>\<open>get_weather_for_city\<close> calls on \<^verbatim>\<open>db_manager\<close>, over any
  store \<open>'s\<close>: each returns the generated id or raises, and leaves a new store.
\<close>

record 's db_manager =
  dbm_insert_or_get_location :: "json \<Rightarrow> 's \<Rightarrow> (exn + int) \<times> 's"
  dbm_insert_weather_data :: "int \<Rightarrow> json \<Rightarrow> 's \<Rightarrow> (exn + int) \<times> 's"

text \<open>The dict \<^verbatim>\<open>{"error": tag, "message": msg}\<close> a failed fetch returns.\<close>

definition error_dict :: "string \<Rightarrow> string \<Rightarrow> json" where
  "error_dict tag msg = JObj [(''error'', JStr tag), (''message'', JStr msg)]"

text \<open>The inner \<^verbatim>\<open>try\<close> block of \<^verbatim>\<open>get_weather_for_city\<close>: the two storage calls.\<close>

definition store_weather :: "'s db_manager \<Rightarrow> json \<Rightarrow> 's \<Rightarrow> (exn + int \<times> int) \<times> 's" where
  "store_weather dbm data s =
     (case py_getitem data ''location'' of
        Inl e \<Rightarrow> (Inl e, s)
      | Inr loc \<Rightarrow>
          (case dbm_insert_or_get_location dbm loc s of
             (Inl e, s1) \<Rightarrow> (Inl e, s1)
           | (Inr location_id, s1) \<Rightarrow>
               (case dbm_insert_weather_data dbm location_id data s1 of
                  (Inl e, s2) \<Rightarrow> (Inl e, s2)
                | (Inr weather_id, s2) \<Rightarrow> (Inr (location_id, weather_id), s2))))"

text \<open>
  \<^verbatim>\<open>get_weather_for_city\<close>: the result pair and the store afterwards. An exception of the
  storage step is logged and dropped; logging is not modelled.
\<close>

definition get_weather_for_city ::
  "'s db_manager \<Rightarrow> string \<Rightarrow> http_event \<Rightarrow> 's \<Rightarrow> (string \<times> json option) \<times> 's" where
  "get_weather_for_city dbm city ev s =
     (case ev of
        Timeout \<Rightarrow>
          ((city, Some (error_dict ''timeout'' (''Request timeout for '' @ city))), s)
      | HTTPError status_code \<Rightarrow>
          (if status_code = 400 then
             ((city, Some (error_dict ''not_found'' (''City '' @ [CHR 0x27] @ city @ [CHR 0x27] @ '' not found''))), s)
           else if status_code = 401 then
             ((city, Some (error_dict ''auth'' ''Invalid API key'')), s)
           else if status_code = 403 then
             ((city, Some (error_dict ''limit'' ''API request limit exceeded'')), s)
           else
             ((city, Some (error_dict ''http''
                 (''HTTP '' @ str_nat status_code @ '' error for '' @ city))), s))
      | OtherException msg \<Rightarrow>
          ((city, Some (error_dict ''unexpected'' (''Unexpected error: '' @ msg))), s)
      | Body data \<Rightarrow>
          (case py_in ''location'' data of
             Inl e \<Rightarrow> ((city, Some (error_dict ''unexpected'' (''Unexpected error: '' @ str_exn e))), s)
           | Inr has_location \<Rightarrow>
               if \<not> has_location then ((city, None), s)
               else
                 (case py_in ''current'' data of
                    Inl e \<Rightarrow>
                      ((city, Some (error_dict ''unexpected'' (''Unexpected error: '' @ str_exn e))), s)
                  | Inr has_current \<Rightarrow>
                      if \<not> has_current then ((city, None), s)
                      else ((city, Some data), snd (store_weather dbm data s)))))"

section \<open>Fan-out orchestrator\<close>

record batch_lists =
  results :: "json list"
  errors :: "string list"
  successful_cities :: "string list"

text \<open>
  The body of the collection loop of \<^verbatim>\<open>process_weather_request\<close> for one completed future.
  \<open>repr\<close> is Python's text for a value that is not a str.
\<close>

definition format_value :: "(json \<Rightarrow> string) \<Rightarrow> json \<Rightarrow> string" where
  "format_value repr v = (case v of JStr s \<Rightarrow> s | _ \<Rightarrow> repr v)"

definition collect_result ::
  "(json \<Rightarrow> string) \<Rightarrow> string \<Rightarrow> string \<times> json option \<Rightarrow> batch_lists \<Rightarrow> batch_lists" where
  "collect_result repr city res acc =
     (case res of (city_name, weather_data) \<Rightarrow>
        (case weather_data of
           None \<Rightarrow> acc\<lparr>errors := errors acc @ [''No data received for '' @ city_name]\<rparr>
         | Some wd \<Rightarrow>
             (case py_in ''error'' wd of
                Inl e \<Rightarrow> acc\<lparr>errors := errors acc @ [city @ '': Unexpected processing error'']\<rparr>
              | Inr has_error \<Rightarrow>
                  if has_error then
                    (case py_getitem wd ''message'' of
                       Inl e \<Rightarrow> acc\<lparr>errors := errors acc @ [city @ '': Unexpected processing error'']\<rparr>
                     | Inr m \<Rightarrow> acc\<lparr>errors := errors acc @ [city_name @ '': '' @ format_value repr m]\<rparr>)
                  else acc\<lparr>results := results acc @ [wd],
                           successful_cities := successful_cities acc @ [city_name]\<rparr>)))"

text \<open>
  What the process cannot decide: the provider's answer to the \<open>i\<close>-th submitted task, the
  order in which the futures complete, the generated uuid, the clock readings.
\<close>

record ('s, 't) env =
  db_manager :: "'s db_manager"
  provider :: "nat \<Rightarrow> string \<Rightarrow> http_event"
  as_completed :: "(string \<times> http_event) list \<Rightarrow> (string \<times> http_event) list"
  uuid4 :: string
  time_recorded :: 't
  time_responded :: 't
  utcnow_iso :: string
  py_repr :: "json \<Rightarrow> string"

record 't recent_request =
  rr_request_id :: string
  rr_cities :: "string list"
  rr_timestamp :: 't
  rr_requested_at :: string

record ('s, 't) app_state =
  db :: 's
  recent_requests :: "'t recent_request list"

record 't response =
  success :: bool
  request_id :: string
  requested_cities :: "string list"
  n_successful_cities :: nat
  n_failed_cities :: nat
  error_list :: "string list"
  timestamp :: 't

text \<open>One task per city, in submission order, each with the provider's answer to it.\<close>

fun submit_all :: "(nat \<Rightarrow> string \<Rightarrow> http_event) \<Rightarrow> nat \<Rightarrow> string list \<Rightarrow> (string \<times> http_event) list" where
  "submit_all prov i [] = []"
| "submit_all prov i (city # cities) = (city, prov i city) # submit_all prov (Suc i) cities"

text \<open>
  The loop over \<^verbatim>\<open>as_completed\<close>. The tasks run one at a time, in completion order; the
  thread pool's interleaving of their storage calls is not modelled.
\<close>

fun collect_all ::
  "'s db_manager \<Rightarrow> (json \<Rightarrow> string) \<Rightarrow> (string \<times> http_event) list \<Rightarrow> batch_lists \<times> 's \<Rightarrow> batch_lists \<times> 's" where
  "collect_all dbm repr [] (acc, s) = (acc, s)"
| "collect_all dbm repr ((city, ev) # futures) (acc, s) =
     (case get_weather_for_city dbm city ev s of
        (res, s') \<Rightarrow> collect_all dbm repr futures (collect_result repr city res acc, s'))"

text \<open>\<^verbatim>\<open>deque(maxlen=100).append\<close>: the oldest entry is dropped when the deque is full.\<close>

definition deque_append :: "'a list \<Rightarrow> 'a \<Rightarrow> 'a list" where
  "deque_append q x = drop (length q + 1 - 100) (q @ [x])"

definition process_weather_request ::
  "('s, 't) env \<Rightarrow> string list \<Rightarrow> ('s, 't) app_state \<Rightarrow> 't response \<times> ('s, 't) app_state" where
  "process_weather_request e cities st =
     (let futures = submit_all (provider e) 0 cities;
          (acc, s') = collect_all (db_manager e) (py_repr e) (as_completed e futures)
                        (\<lparr>results = [], errors = [], successful_cities = []\<rparr>, db st);
          entry = \<lparr>rr_request_id = uuid4 e, rr_cities = successful_cities acc,
                   rr_timestamp = time_recorded e, rr_requested_at = utcnow_iso e\<rparr>
      in (\<lparr>success = (length (results acc) > 0),
           request_id = uuid4 e,
           requested_cities = cities,
           n_successful_cities = length (results acc),
           n_failed_cities = length (errors acc),
           error_list = errors acc,
           timestamp = time_responded e\<rparr>,
          st\<lparr>db := s', recent_requests := deque_append (recent_requests st) entry\<rparr>))"

text \<open>
  When a submitted task ends up in \<^verbatim>\<open>results\<close>: its HTTP part yields a body that passes both
  membership checks of the fetcher and the \<^verbatim>\<open>"error" in weather_data\<close> check of the loop.
\<close>

definition fetch_succeeds :: "string \<times> http_event \<Rightarrow> bool" where
  "fetch_succeeds t =
     (case snd t of
        Body data \<Rightarrow> py_in ''location'' data = Inr True \<and> py_in ''current'' data = Inr True
                       \<and> py_in ''error'' data = Inr False
      | _ \<Rightarrow> False)"

section \<open>Example environments\<close>

text \<open>Two storage managers over a store that counts the calls made: one succeeds, one raises.\<close>

definition counting_manager :: "nat db_manager" where
  "counting_manager =
     \<lparr>dbm_insert_or_get_location = (\<lambda>loc s. (Inr 1, Suc s)),
      dbm_insert_weather_data = (\<lambda>location_id data s. (Inr 1, Suc s))\<rparr>"

definition failing_manager :: "nat db_manager" where
  "failing_manager =
     \<lparr>dbm_insert_or_get_location = (\<lambda>loc s. (Inl OperationalError, Suc s)),
      dbm_insert_weather_data = (\<lambda>location_id data s. (Inl OperationalError, Suc s))\<rparr>"

definition london_payload :: json where
  "london_payload =
     JObj [(''location'', JObj [(''name'', JStr ''London''), (''country'', JStr ''UK'')]),
           (''current'', JObj [(''temp_c'', JFloat 11), (''humidity'', JInt 0)])]"

definition tagged_payload :: json where
  "tagged_payload =
     JObj [(''location'', JObj [(''name'', JStr ''London'')]),
           (''current'', JObj [(''temp_c'', JFloat 11)]),
           (''error'', JNull)]"

text \<open>Two bodies that are valid JSON but not objects.\<close>

definition array_payload :: json where
  "array_payload = JArr [JStr ''location'', JStr ''current'']"

definition words_payload :: json where
  "words_payload = JStr ''location and current''"

definition odd_provider :: "nat \<Rightarrow> string \<Rightarrow> http_event" where
  "odd_provider i city =
     (if city = ''Array'' then http_part (Reply 200 (Json array_payload))
      else http_part (Reply 200 (Json words_payload)))"

definition example_provider :: "nat \<Rightarrow> string \<Rightarrow> http_event" where
  "example_provider i city =
     (if city = ''London'' then Body london_payload
      else if city = ''Paris'' then Body (JObj [(''location'', JObj [])])
      else if city = ''Tagged'' then Body tagged_payload
      else if city = ''Slow'' then Timeout
      else HTTPError 400)"

definition example_env :: "nat db_manager \<Rightarrow> (nat, nat) env" where
  "example_env dbm =
     \<lparr>db_manager = dbm, provider = example_provider, as_completed = rev,
      uuid4 = ''0f8fad5b-d9cb-469f-a165-70867728950e'', time_recorded = 1, time_responded = 2,
      utcnow_iso = ''2025-01-01T00:00:00+00:00'', py_repr = (\<lambda>v. ''?'')\<rparr>"

definition odd_env :: "(nat, nat) env" where
  "odd_env = (example_env counting_manager)\<lparr>provider := odd_provider\<rparr>"



section \<open>Persistence layer\<close>

text \<open>A \<^verbatim>\<open>DECIMAL\<close> value as psycopg2 returns it: a \<^verbatim>\<open>Decimal\<close>, finite or NaN.\<close>

datatype decimal = Dec rat | DecNaN


text \<open>
  The provider's payload shape, which is also the shape \<^verbatim>\<open>get_recent_weather_data\<close> rebuilds:
  a \<^verbatim>\<open>location\<close> dict and a \<^verbatim>\<open>current\<close> dict with a nested \<^verbatim>\<open>condition\<close> dict. A dict is a
  record of optional fields, \<open>None\<close> where \<^verbatim>\<open>.get\<close> returns \<^verbatim>\<open>None\<close>; a missing sub-dict is the
  record whose fields are all \<open>None\<close>, as \<^verbatim>\<open>.get(key, {})\<close> makes it. \<open>'n\<close> is the type of the
  fractional numbers: \<open>decimal\<close> on the way into the tables, the float type on the way out.
\<close>

record 'n location_data =
  name :: "string option"
  region :: "string option"
  country :: "string option"
  lat :: "'n option"
  lon :: "'n option"
  tz_id :: "string option"
  localtime_epoch :: "int option"
  localtime_string :: "string option"

record condition_data =
  condition_text :: "string option"
  condition_icon :: "string option"
  condition_code :: "int option"

record 'n current_data =
  last_updated_epoch :: "int option"
  last_updated :: "string option"
  temp_c :: "'n option"
  temp_f :: "'n option"
  is_day :: "int option"
  condition :: condition_data
  wind_mph :: "'n option"
  wind_kph :: "'n option"
  wind_degree :: "int option"
  wind_dir :: "string option"
  pressure_mb :: "'n option"
  pressure_in :: "'n option"
  precip_mm :: "'n option"
  precip_in :: "'n option"
  humidity :: "int option"
  cloud :: "int option"
  feelslike_c :: "'n option"
  feelslike_f :: "'n option"
  vis_km :: "'n option"
  vis_miles :: "'n option"
  uv :: "'n option"
  gust_mph :: "'n option"
  gust_kph :: "'n option"

record 'n weather_item =
  location :: "'n location_data"
  current :: "'n current_data"

text \<open>
  The rows of the tables \<^verbatim>\<open>locations\<close> and \<^verbatim>\<open>weather\<close>, with the nullability of the schema.
  Timestamps are integers. \<open>w_raw_data\<close> holds the whole payload, as the JSONB column does.
\<close>

record location_row =
  l_id :: int
  l_name :: string
  l_region :: "string option"
  l_country :: string
  l_lat :: "decimal option"
  l_lon :: "decimal option"
  l_tz_id :: "string option"
  l_localtime_epoch :: "int option"
  l_localtime_string :: "string option"
  l_created_at :: int
  l_updated_at :: int

record weather_row =
  w_id :: int
  w_location_id :: int
  w_last_updated_epoch :: int
  w_last_updated :: string
  w_temp_c :: "decimal option"
  w_temp_f :: "decimal option"
  w_is_day :: "int option"
  w_condition_text :: "string option"
  w_condition_icon :: "string option"
  w_condition_code :: "int option"
  w_wind_mph :: "decimal option"
  w_wind_kph :: "decimal option"
  w_wind_degree :: "int option"
  w_wind_dir :: "string option"
  w_pressure_mb :: "decimal option"
  w_pressure_in :: "decimal option"
  w_precip_mm :: "decimal option"
  w_precip_in :: "decimal option"
  w_humidity :: "int option"
  w_cloud :: "int option"
  w_feelslike_c :: "decimal option"
  w_feelslike_f :: "decimal option"
  w_vis_km :: "decimal option"
  w_vis_miles :: "decimal option"
  w_uv :: "decimal option"
  w_gust_mph :: "decimal option"
  w_gust_kph :: "decimal option"
  w_raw_data :: "decimal weather_item"
  w_created_at :: int

text \<open>
  The store: whether \<^verbatim>\<open>psycopg2.connect\<close> succeeds, the two tables in insertion order and
  the next values of the two SERIAL sequences.
\<close>

record database =
  reachable :: bool
  locations :: "location_row list"
  weather :: "weather_row list"
  locations_id_seq :: int
  weather_id_seq :: int


text \<open>
  \<^verbatim>\<open>insert_or_get_location\<close> at time \<open>now\<close>. The SELECT compares with SQL \<open>=\<close>, which is not true
  when either side is NULL: a row matches only if its region and the given region are both
  non-null and equal. The INSERT fails on a null name or country; a failed INSERT still
  consumes a sequence value. Values are taken as representable in their columns.
\<close>

definition insert_or_get_location ::
  "int \<Rightarrow> decimal location_data \<Rightarrow> database \<Rightarrow> (exn + int) \<times> database" where
  "insert_or_get_location now location_data d =
     (if \<not> reachable d then (Inl OperationalError, d)
      else
        (case find (\<lambda>l. Some (l_name l) = name location_data
                         \<and> Some (l_country l) = country location_data
                         \<and> l_region l \<noteq> None \<and> l_region l = region location_data)
                (locations d) of
           Some existing \<Rightarrow>
             (Inr (l_id existing),
              d\<lparr>locations :=
                  map (\<lambda>l. if l_id l = l_id existing
                            then l\<lparr>l_lat := lat location_data, l_lon := lon location_data,
                                   l_tz_id := tz_id location_data,
                                   l_localtime_epoch := localtime_epoch location_data,
                                   l_localtime_string := localtime_string location_data,
                                   l_updated_at := now\<rparr>
                            else l)
                      (locations d)\<rparr>)
         | None \<Rightarrow>
             (case (name location_data, country location_data) of
                (Some n, Some c) \<Rightarrow>
                  (Inr (locations_id_seq d),
                   d\<lparr>locations := locations d @
                        [\<lparr>l_id = locations_id_seq d, l_name = n, l_region = region location_data,
                          l_country = c, l_lat = lat location_data, l_lon = lon location_data,
                          l_tz_id = tz_id location_data,
                          l_localtime_epoch = localtime_epoch location_data,
                          l_localtime_string = localtime_string location_data,
                          l_created_at = now, l_updated_at = now\<rparr>],
                      locations_id_seq := locations_id_seq d + 1\<rparr>)
              | _ \<Rightarrow>
                  (Inl (NotNullViolation ''locations''),
                   d\<lparr>locations_id_seq := locations_id_seq d + 1\<rparr>))))"

text \<open>
  \<^verbatim>\<open>insert_weather_data\<close> at time \<open>now\<close>: one new row, or an error when a NOT NULL column
  would be null or the location id has no row in \<^verbatim>\<open>locations\<close>. As above, every value is
  taken as representable in its column: an integer within the range of INTEGER or BIGINT,
  a fraction with no more digits than the scale and precision of its DECIMAL column, no
  NaN, a string within the length of its VARCHAR. For other values PostgreSQL rounds the
  fraction or raises; neither is part of this function.
\<close>

definition insert_weather_data ::
  "int \<Rightarrow> int \<Rightarrow> decimal weather_item \<Rightarrow> database \<Rightarrow> (exn + int) \<times> database" where
  "insert_weather_data now location_id weather_data d =
     (if \<not> reachable d then (Inl OperationalError, d)
      else
        (let cur = current weather_data; cond = condition cur in
         case (last_updated_epoch cur, last_updated cur) of
           (Some epoch, Some updated) \<Rightarrow>
             if location_id \<notin> set (map l_id (locations d))
             then (Inl ForeignKeyViolation, d\<lparr>weather_id_seq := weather_id_seq d + 1\<rparr>)
             else
               (Inr (weather_id_seq d),
                d\<lparr>weather := weather d @
                     [\<lparr>w_id = weather_id_seq d, w_location_id = location_id,
                       w_last_updated_epoch = epoch, w_last_updated = updated,
                       w_temp_c = temp_c cur, w_temp_f = temp_f cur, w_is_day = is_day cur,
                       w_condition_text = condition_text cond,
                       w_condition_icon = condition_icon cond,
                       w_condition_code = condition_code cond,
                       w_wind_mph = wind_mph cur, w_wind_kph = wind_kph cur,
                       w_wind_degree = wind_degree cur, w_wind_dir = wind_dir cur,
                       w_pressure_mb = pressure_mb cur, w_pressure_in = pressure_in cur,
                       w_precip_mm = precip_mm cur, w_precip_in = precip_in cur,
                       w_humidity = humidity cur, w_cloud = cloud cur,
                       w_feelslike_c = feelslike_c cur, w_feelslike_f = feelslike_f cur,
                       w_vis_km = vis_km cur, w_vis_miles = vis_miles cur, w_uv = uv cur,
                       w_gust_mph = gust_mph cur, w_gust_kph = gust_kph cur,
                       w_raw_data = weather_data, w_created_at = now\<rparr>],
                   weather_id_seq := weather_id_seq d + 1\<rparr>)
         | _ \<Rightarrow>
             (Inl (NotNullViolation ''weather''), d\<lparr>weather_id_seq := weather_id_seq d + 1\<rparr>)))"

text \<open>
  The query of \<^verbatim>\<open>get_recent_weather_data\<close>: the join of the two tables on the location id,
  restricted to the given names, ordered by observation epoch descending and then insertion
  time descending, cut at the row count. Rows that tie keep their table order (SQL leaves
  their order open). A negative row count is an error of the database.
\<close>

type_synonym joined_row = "location_row \<times> weather_row"

definition joined_rows :: "database \<Rightarrow> string list \<Rightarrow> joined_row list" where
  "joined_rows d city_names =
     concat (map (\<lambda>w. map (\<lambda>l. (l, w))
                         (filter (\<lambda>l. l_id l = w_location_id w \<and> l_name l \<in> set city_names)
                            (locations d)))
                (weather d))"

definition sorts_before :: "joined_row \<Rightarrow> joined_row \<Rightarrow> bool" where
  "sorts_before r r' =
     (w_last_updated_epoch (snd r) > w_last_updated_epoch (snd r')
      \<or> (w_last_updated_epoch (snd r) = w_last_updated_epoch (snd r')
          \<and> w_created_at (snd r) \<ge> w_created_at (snd r')))"

fun insert_row :: "joined_row \<Rightarrow> joined_row list \<Rightarrow> joined_row list" where
  "insert_row r [] = [r]"
| "insert_row r (r' # rs) = (if sorts_before r r' then r # r' # rs else r' # insert_row r rs)"

definition order_by :: "joined_row list \<Rightarrow> joined_row list" where
  "order_by rs = foldr insert_row rs []"

definition select_recent :: "database \<Rightarrow> string list \<Rightarrow> int \<Rightarrow> exn + joined_row list" where
  "select_recent d city_names row_count =
     (if row_count < 0 then Inl InvalidRowCount
      else Inr (take (nat row_count) (order_by (joined_rows d city_names))))"

text \<open>
  \<^verbatim>\<open>null_filler = lambda x: float(x) if x else None\<close>. A \<^verbatim>\<open>Decimal\<close> is falsy exactly when it
  is zero; \<open>to_float\<close> stands for \<^verbatim>\<open>float\<close>.
\<close>

definition null_filler :: "(decimal \<Rightarrow> 'f) \<Rightarrow> decimal option \<Rightarrow> 'f option" where
  "null_filler to_float x =
     (case x of None \<Rightarrow> None | Some v \<Rightarrow> if v = Dec 0 then None else Some (to_float v))"

text \<open>
  The dict literal \<^verbatim>\<open>weather_item\<close> built from a row.
\<close>

definition weather_item_of :: "(decimal \<Rightarrow> 'f) \<Rightarrow> joined_row \<Rightarrow> 'f weather_item" where
  "weather_item_of to_float row =
     (case row of (l, w) \<Rightarrow>
        \<lparr>location =
           \<lparr>name = Some (l_name l), region = l_region l, country = Some (l_country l),
            lat = null_filler to_float (l_lat l), lon = null_filler to_float (l_lon l),
            tz_id = l_tz_id l, localtime_epoch = l_localtime_epoch l,
            localtime_string = l_localtime_string l\<rparr>,
         current =
           \<lparr>last_updated_epoch = Some (w_last_updated_epoch w),
            last_updated = Some (w_last_updated w),
            temp_c = null_filler to_float (w_temp_c w),
            temp_f = null_filler to_float (w_temp_f w),
            is_day = w_is_day w,
            condition = \<lparr>condition_text = w_condition_text w,
                          condition_icon = w_condition_icon w,
                          condition_code = w_condition_code w\<rparr>,
            wind_mph = null_filler to_float (w_wind_mph w),
            wind_kph = null_filler to_float (w_wind_kph w),
            wind_degree = w_wind_degree w,
            wind_dir = w_wind_dir w,
            pressure_mb = null_filler to_float (w_pressure_mb w),
            pressure_in = null_filler to_float (w_pressure_in w),
            precip_mm = null_filler to_float (w_precip_mm w),
            precip_in = null_filler to_float (w_precip_in w),
            humidity = w_humidity w,
            cloud = w_cloud w,
            feelslike_c = null_filler to_float (w_feelslike_c w),
            feelslike_f = null_filler to_float (w_feelslike_f w),
            vis_km = null_filler to_float (w_vis_km w),
            vis_miles = null_filler to_float (w_vis_miles w),
            uv = null_filler to_float (w_uv w),
            gust_mph = null_filler to_float (w_gust_mph w),
            gust_kph = null_filler to_float (w_gust_kph w)\<rparr>\<rparr>)"

text \<open>
  The \<^verbatim>\<open>for\<close> loop of \<^verbatim>\<open>get_recent_weather_data\<close>. Its body is the single statement
  \<^verbatim>\<open>city_name = row['name']\<close>; the \<^verbatim>\<open>if\<close> that follows is indented at the level of the
  \<^verbatim>\<open>for\<close> and so runs once, after the loop. The loop leaves \<^verbatim>\<open>row\<close> and \<^verbatim>\<open>city_name\<close> bound
  to the last row, or unbound (\<open>None\<close>) when there was no row.
\<close>

fun last_bound :: "(joined_row \<times> string) option \<Rightarrow> joined_row list \<Rightarrow> (joined_row \<times> string) option" where
  "last_bound b [] = b"
| "last_bound b (row # rows) = last_bound (Some (row, l_name (fst row))) rows"

text \<open>
  \<^verbatim>\<open>get_recent_weather_data\<close>. Reading the unbound \<^verbatim>\<open>city_name\<close> raises
  \<^verbatim>\<open>UnboundLocalError\<close>, which the method logs and raises again.
\<close>

definition get_recent_weather_data ::
  "(decimal \<Rightarrow> 'f) \<Rightarrow> database \<Rightarrow> string list \<Rightarrow> int \<Rightarrow> exn + 'f weather_item list" where
  "get_recent_weather_data to_float d city_names limit =
     (if \<not> reachable d then Inl OperationalError
      else
        (case select_recent d city_names (limit * int (length city_names)) of
           Inl e \<Rightarrow> Inl e
         | Inr fetched \<Rightarrow>
             (let city_data = [] in
              case last_bound None fetched of
                None \<Rightarrow> Inl (UnboundLocalError ''city_name'')
              | Some (row, city_name) \<Rightarrow>
                  (let city_data' =
                         (if city_name \<notin> set (map fst city_data)
                          then city_data @ [(city_name, weather_item_of to_float row)]
                          else city_data)
                   in Inr (map snd city_data')))))"


section \<open>Example stores\<close>

definition empty_database :: database where
  "empty_database =
     \<lparr>reachable = True, locations = [], weather = [], locations_id_seq = 1, weather_id_seq = 1\<rparr>"

definition no_condition :: condition_data where
  "no_condition = \<lparr>condition_text = None, condition_icon = None, condition_code = None\<rparr>"

definition place :: "string \<Rightarrow> string option \<Rightarrow> string \<Rightarrow> decimal location_data" where
  "place n r c =
     \<lparr>name = Some n, region = r, country = Some c, lat = None, lon = None, tz_id = None,
      localtime_epoch = None, localtime_string = None\<rparr>"

text \<open>A reading at the given epoch with the given temperature and humidity.\<close>

definition reading :: "int \<Rightarrow> decimal \<Rightarrow> int \<Rightarrow> decimal current_data" where
  "reading epoch t h =
     \<lparr>last_updated_epoch = Some epoch, last_updated = Some ''2025-01-01 00:00'',
      temp_c = Some t, temp_f = None, is_day = None, condition = no_condition,
      wind_mph = None, wind_kph = None, wind_degree = None, wind_dir = None,
      pressure_mb = None, pressure_in = None, precip_mm = None, precip_in = None,
      humidity = Some h, cloud = None, feelslike_c = None, feelslike_f = None,
      vis_km = None, vis_miles = None, uv = None, gust_mph = None, gust_kph = None\<rparr>"

definition london :: "decimal location_data" where
  "london = place ''London'' (Some ''City of London, Greater London'') ''United Kingdom''"

text \<open>
  London stored once, then two readings appended for it: epoch 100 with 10 degrees, then
  epoch 200 with 20 degrees.
\<close>

definition london_twice :: database where
  "london_twice =
     (let d1 = snd (insert_or_get_location 1000 london empty_database);
          d2 = snd (insert_weather_data 1001 1 \<lparr>location = london, current = reading 100 (Dec 10) 50\<rparr> d1)
      in snd (insert_weather_data 1002 1 \<lparr>location = london, current = reading 200 (Dec 20) 60\<rparr> d2))"


definition paris :: "decimal location_data" where
  "paris = place ''Paris'' (Some ''Ile-de-France'') ''France''"

text \<open>The store above, then Paris stored and one reading appended for it at epoch 150.\<close>

definition london_and_paris :: database where
  "london_and_paris =
     (let d1 = snd (insert_or_get_location 1003 paris london_twice)
      in snd (insert_weather_data 1004 2 \<lparr>location = paris, current = reading 150 (Dec 15) 70\<rparr> d1))"

text \<open>A place whose region is null.\<close>

definition singapore :: "decimal location_data" where
  "singapore = place ''Singapore'' None ''Singapore''"

text \<open>The city name, observation epoch and temperature of a returned item.\<close>

definition summary :: "'f weather_item \<Rightarrow> string option \<times> int option \<times> 'f option" where
  "summary item = (name (location item), last_updated_epoch (current item), temp_c (current item))"

text \<open>The id and the identity columns (name, country, region) of a location row.\<close>

definition identity_of :: "location_row \<Rightarrow> int \<times> string \<times> string \<times> string option" where
  "identity_of l = (l_id l, l_name l, l_country l, l_region l)"

section \<open>Properties of the fan-out orchestrator\<close>

lemma collect_result_total:
  "length (results (collect_result repr city res acc)) + length (errors (collect_result repr city res acc))
     = Suc (length (results acc) + length (errors acc))"
  by (cases res) (simp add: collect_result_def split: option.splits sum.splits)

lemma collect_all_total:
  "collect_all dbm repr futures (acc, s) = (acc', s') \<Longrightarrow>
     length (results acc') + length (errors acc') = length (results acc) + length (errors acc) + length futures"
proof (induction futures arbitrary: acc s)
  case Nil
  then show ?case by simp
next
  case (Cons f futures)
  obtain city ev where f: "f = (city, ev)" by (cases f)
  obtain res s1 where g: "get_weather_for_city dbm city ev s = (res, s1)" by (cases "get_weather_for_city dbm city ev s")
  from Cons.prems f g have "collect_all dbm repr futures (collect_result repr city res acc, s1) = (acc', s')"
    by simp
  from Cons.IH [OF this] show ?case
    by (simp add: collect_result_total)
qed


lemma py_in_error_dict: "py_in ''error'' (error_dict tag msg) = Inr True"
  by (simp add: error_dict_def)

lemma py_in_str_total: "py_in k d = Inr b \<Longrightarrow> \<exists>c. py_in k' d = Inr c"
  by (cases d) simp_all

lemma fetch_result_cases:
  "results (collect_result repr city (fst (get_weather_for_city dbm city ev s)) acc)
     = (if fetch_succeeds (city, ev) then results acc @ [case ev of Body d \<Rightarrow> d] else results acc)"
proof (cases ev)
  case (Body data)
  show ?thesis
  proof (cases "py_in ''location'' data")
    case (Inl e)
    then show ?thesis using Body
      by (simp add: get_weather_for_city_def fetch_succeeds_def collect_result_def py_in_error_dict
          error_dict_def)
  next
    case (Inr b)
    then obtain c where c: "py_in ''current'' data = Inr c" using py_in_str_total by blast
    from Inr obtain d where d: "py_in ''error'' data = Inr d" using py_in_str_total by blast
    show ?thesis using Body Inr c d
      by (simp add: get_weather_for_city_def fetch_succeeds_def collect_result_def split: sum.splits)
  qed
qed (simp_all add: get_weather_for_city_def fetch_succeeds_def collect_result_def error_dict_def)

lemma collect_all_results:
  "collect_all dbm repr futures (acc, s) = (acc', s') \<Longrightarrow>
     length (results acc') = length (results acc) + length (filter fetch_succeeds futures)"
proof (induction futures arbitrary: acc s)
  case Nil
  then show ?case by simp
next
  case (Cons f futures)
  obtain city ev where f: "f = (city, ev)" by (cases f)
  obtain res s1 where g: "get_weather_for_city dbm city ev s = (res, s1)" by (cases "get_weather_for_city dbm city ev s")
  from Cons.prems f g have "collect_all dbm repr futures (collect_result repr city res acc, s1) = (acc', s')"
    by simp
  from Cons.IH [OF this] fetch_result_cases [of repr city dbm ev s acc] g f show ?case
    by simp
qed

lemma filter_length_mset: "mset xs = mset ys \<Longrightarrow> length (filter P xs) = length (filter P ys)"
  by (metis mset_filter size_mset)

lemma collect_all_errors:
  "collect_all dbm repr futures (acc, s) = (acc', s') \<Longrightarrow>
     length (errors acc') = length (errors acc) + length (filter (\<lambda>t. \<not> fetch_succeeds t) futures)"
proof -
  assume c: "collect_all dbm repr futures (acc, s) = (acc', s')"
  have "length (filter fetch_succeeds futures) + length (filter (\<lambda>t. \<not> fetch_succeeds t) futures) = length futures"
    by (rule sum_length_filter_compl)
  with collect_all_total [OF c] collect_all_results [OF c] show ?thesis by simp
qed



text \<open>
  Claim C3. The batch always returns a response; its success flag is true exactly when some
  submitted task succeeded, that is when the count of successful cities is positive. Every
  task that did not succeed is one entry of the error list and nothing else.
\<close>

theorem batch_success_iff_a_city_succeeded:
  assumes "mset (as_completed e (submit_all (provider e) 0 cities)) = mset (submit_all (provider e) 0 cities)"
  shows "(success (fst (process_weather_request e cities st))
            \<longleftrightarrow> (\<exists>t \<in> set (submit_all (provider e) 0 cities). fetch_succeeds t))
       \<and> (success (fst (process_weather_request e cities st))
            \<longleftrightarrow> 0 < n_successful_cities (fst (process_weather_request e cities st)))
       \<and> n_successful_cities (fst (process_weather_request e cities st))
            = length (filter fetch_succeeds (submit_all (provider e) 0 cities))
       \<and> n_failed_cities (fst (process_weather_request e cities st))
            = length (filter (\<lambda>t. \<not> fetch_succeeds t) (submit_all (provider e) 0 cities))
       \<and> length (error_list (fst (process_weather_request e cities st)))
            = n_failed_cities (fst (process_weather_request e cities st))"
proof -
  let ?ts = "submit_all (provider e) 0 cities"
  let ?fs = "as_completed e ?ts"
  obtain acc s' where c: "collect_all (db_manager e) (py_repr e) ?fs
      (\<lparr>results = [], errors = [], successful_cities = []\<rparr>, db st) = (acc, s')"
    by (cases "collect_all (db_manager e) (py_repr e) ?fs
      (\<lparr>results = [], errors = [], successful_cities = []\<rparr>, db st)")
  have r: "length (results acc) = length (filter fetch_succeeds ?ts)"
    using collect_all_results [OF c] filter_length_mset [OF assms] by simp
  have f: "length (errors acc) = length (filter (\<lambda>t. \<not> fetch_succeeds t) ?ts)"
    using collect_all_errors [OF c] filter_length_mset [OF assms] by simp
  have ex: "(0 < length (filter fetch_succeeds ?ts)) = (\<exists>t \<in> set ?ts. fetch_succeeds t)"
    by (simp add: filter_empty_conv)
  have resp: "fst (process_weather_request e cities st) =
      \<lparr>success = (length (results acc) > 0), request_id = uuid4 e, requested_cities = cities,
       n_successful_cities = length (results acc), n_failed_cities = length (errors acc),
       error_list = errors acc, timestamp = time_responded e\<rparr>"
    using c by (simp add: process_weather_request_def Let_def)
  show ?thesis
    unfolding resp using r f ex by simp
qed

theorem batch_success_iff_a_city_succeeded_witness:
  "mset (as_completed (example_env failing_manager)
           (submit_all (provider (example_env failing_manager)) 0 [''Slow'', ''London'', ''Paris'']))
     = mset (submit_all (provider (example_env failing_manager)) 0 [''Slow'', ''London'', ''Paris''])
   \<and> success (fst (process_weather_request (example_env failing_manager)
         [''Slow'', ''London'', ''Paris''] \<lparr>db = 0, recent_requests = []\<rparr>))
   \<and> n_successful_cities (fst (process_weather_request (example_env failing_manager)
         [''Slow'', ''London'', ''Paris''] \<lparr>db = 0, recent_requests = []\<rparr>)) = 1
   \<and> n_failed_cities (fst (process_weather_request (example_env failing_manager)
         [''Slow'', ''London'', ''Paris''] \<lparr>db = 0, recent_requests = []\<rparr>)) = 2"
proof -
  have h: "mset (as_completed (example_env failing_manager)
           (submit_all (provider (example_env failing_manager)) 0 [''Slow'', ''London'', ''Paris'']))
     = mset (submit_all (provider (example_env failing_manager)) 0 [''Slow'', ''London'', ''Paris''])"
    by (simp add: example_env_def)
  have p: "provider (example_env failing_manager) = example_provider"
    by (simp add: example_env_def)
  show ?thesis
    using h batch_success_iff_a_city_succeeded [OF h, of "\<lparr>db = 0, recent_requests = []\<rparr>"]
    unfolding p
    by (simp add: example_provider_def fetch_succeeds_def london_payload_def)
qed

section \<open>Properties of the rate limiter\<close>











section \<open>Properties of the weather fetcher\<close>




text \<open>
  For a body that is a JSON object without the \<^verbatim>\<open>location\<close> key or without the \<^verbatim>\<open>current\<close>
  key, the fetch returns no data, the store is left as it was whatever the storage methods
  are, and the collection loop turns the result into one error entry and no success.
\<close>

lemma object_without_key_fails_without_storage:
  assumes "''location'' \<notin> set (map fst kvs) \<or> ''current'' \<notin> set (map fst kvs)"
  shows "get_weather_for_city dbm city (Body (JObj kvs)) s = ((city, None), s)
       \<and> \<not> fetch_succeeds (city, Body (JObj kvs))
       \<and> collect_result repr city (city, None) acc
           = acc\<lparr>errors := errors acc @ [''No data received for '' @ city]\<rparr>"
  using assms
  by (auto simp add: get_weather_for_city_def fetch_succeeds_def collect_result_def)

text \<open>
  Claim C5 at a failing input. The validity check is \<^verbatim>\<open>'location' not in data\<close>, which on a
  list tests the elements and on a string the substrings. The array
  \<^verbatim>\<open>["location", "current"]\<close> and the string \<^verbatim>\<open>"location and current"\<close> have neither key,
  yet they pass the check: the fetch returns them as data and the batch counts both cities
  as successful, with no error entry. No storage method is called for them, because
  \<^verbatim>\<open>data['location']\<close> raises inside the storage block.
\<close>

theorem non_object_body_counted_successful:
  "py_getitem array_payload ''location'' = Inl (TypeError ''list indices must be integers or slices, not str'')
   \<and> get_weather_for_city counting_manager ''Array'' (http_part (Reply 200 (Json array_payload))) 0
       = ((''Array'', Some array_payload), 0)
   \<and> get_weather_for_city counting_manager ''Words'' (http_part (Reply 200 (Json words_payload))) 0
       = ((''Words'', Some words_payload), 0)
   \<and> n_successful_cities (fst (process_weather_request odd_env [''Array'', ''Words'']
        \<lparr>db = 0, recent_requests = []\<rparr>)) = 2
   \<and> n_failed_cities (fst (process_weather_request odd_env [''Array'', ''Words'']
        \<lparr>db = 0, recent_requests = []\<rparr>)) = 0
   \<and> error_list (fst (process_weather_request odd_env [''Array'', ''Words'']
        \<lparr>db = 0, recent_requests = []\<rparr>)) = []"
  by (simp add: array_payload_def words_payload_def http_part_def raise_for_status_def
      get_weather_for_city_def store_weather_def process_weather_request_def odd_env_def
      odd_provider_def example_env_def collect_result_def)







section \<open>Properties of the persistence layer\<close>

lemma last_bound_eq:
  "last_bound b rows = (if rows = [] then b else Some (last rows, l_name (fst (last rows))))"
  by (induction rows arbitrary: b) simp_all

lemma get_recent_weather_data_eq:
  assumes "reachable d"
    and "select_recent d city_names (limit * int (length city_names)) = Inr rows"
  shows "get_recent_weather_data to_float d city_names limit =
           (if rows = [] then Inl (UnboundLocalError ''city_name'')
            else Inr [weather_item_of to_float (last rows)])"
  using assms by (simp add: get_recent_weather_data_def last_bound_eq)





lemma find_map_same:
  "(\<And>x. P (f x) = P x) \<Longrightarrow> find P (map f xs) = map_option f (find P xs)"
  by (induction xs) simp_all

lemma find_snoc:
  "find P (xs @ [x]) = (case find P xs of None \<Rightarrow> (if P x then Some x else None) | Some y \<Rightarrow> Some y)"
  by (induction xs) simp_all

text \<open>
  Claim C1 at a failing input. London is stored with readings at epochs 100 and 200; the
  call for London returns the reading of epoch 100, the oldest one, not the most recent.
  With Paris stored too (one reading, epoch 150), the call for both names returns a single
  item, again London's reading of epoch 100, and nothing for Paris: the item is built once,
  from the last row of the ordered result.
\<close>

theorem oldest_reading_returned:
  "map w_last_updated_epoch (weather london_twice) = [100, 200]
   \<and> map_sum id (map summary) (get_recent_weather_data (\<lambda>x. x) london_twice [''London''] 10)
       = Inr [(Some ''London'', Some 100, Some (Dec 10))]
   \<and> map (\<lambda>w. (w_location_id w, w_last_updated_epoch w)) (weather london_and_paris)
       = [(1, 100), (1, 200), (2, 150)]
   \<and> map_sum id (map summary)
        (get_recent_weather_data (\<lambda>x. x) london_and_paris [''London'', ''Paris''] 10)
       = Inr [(Some ''London'', Some 100, Some (Dec 10))]"
  by (simp add: london_and_paris_def paris_def london_twice_def london_def place_def reading_def empty_database_def
      insert_or_get_location_def insert_weather_data_def get_recent_weather_data_def
      select_recent_def joined_rows_def order_by_def sorts_before_def weather_item_of_def
      null_filler_def summary_def no_condition_def Let_def)

text \<open>
  For an identity whose region is not null a second call finds the row of the first one: it
  returns the same id and adds no row.
\<close>

lemma upsert_again_same_id:
  assumes "name ld = Some n" and "country ld = Some c" and "region ld = Some r"
    and "insert_or_get_location t1 ld d = (Inr i, d1)"
  shows "fst (insert_or_get_location t2 ld d1) = Inr i
       \<and> map identity_of (locations (snd (insert_or_get_location t2 ld d1)))
           = map identity_of (locations d1)"
proof -
  let ?P = "\<lambda>l. Some (l_name l) = name ld \<and> Some (l_country l) = country ld
                 \<and> l_region l \<noteq> None \<and> l_region l = region ld"
  from assms(4) have r: "reachable d"
    by (auto simp add: insert_or_get_location_def split: if_splits)
  show ?thesis
  proof (cases "find ?P (locations d)")
    case None
    with assms r have d1: "d1 = d\<lparr>locations := locations d @
                        [\<lparr>l_id = locations_id_seq d, l_name = n, l_region = region ld,
                          l_country = c, l_lat = lat ld, l_lon = lon ld,
                          l_tz_id = tz_id ld,
                          l_localtime_epoch = localtime_epoch ld,
                          l_localtime_string = localtime_string ld,
                          l_created_at = t1, l_updated_at = t1\<rparr>],
                      locations_id_seq := locations_id_seq d + 1\<rparr>"
      and i: "i = locations_id_seq d"
      by (auto simp add: insert_or_get_location_def)
    have f: "find ?P (locations d1) = Some \<lparr>l_id = locations_id_seq d, l_name = n, l_region = region ld,
                          l_country = c, l_lat = lat ld, l_lon = lon ld,
                          l_tz_id = tz_id ld,
                          l_localtime_epoch = localtime_epoch ld,
                          l_localtime_string = localtime_string ld,
                          l_created_at = t1, l_updated_at = t1\<rparr>"
      unfolding d1 using None assms(1-3) by (simp add: find_snoc)
    have r1: "reachable d1" unfolding d1 using r by simp
    show ?thesis
      using f r1 i by (simp add: insert_or_get_location_def identity_of_def comp_def)
  next
    case (Some e)
    let ?upd = "\<lambda>l. if l_id l = l_id e
                            then l\<lparr>l_lat := lat ld, l_lon := lon ld,
                                   l_tz_id := tz_id ld,
                                   l_localtime_epoch := localtime_epoch ld,
                                   l_localtime_string := localtime_string ld,
                                   l_updated_at := t1\<rparr>
                            else l"
    from Some assms r have d1: "d1 = d\<lparr>locations := map ?upd (locations d)\<rparr>"
      and i: "i = l_id e"
      by (auto simp add: insert_or_get_location_def)
    have "find ?P (map ?upd (locations d)) = map_option ?upd (find ?P (locations d))"
      by (rule find_map_same) simp
    with Some have f: "find ?P (locations d1) = Some (?upd e)"
      unfolding d1 by simp
    have r1: "reachable d1" unfolding d1 using r by simp
    show ?thesis
      using f r1 i by (simp add: insert_or_get_location_def identity_of_def comp_def)
  qed
qed

text \<open>
  Claim C4 at a failing input. For an identity whose region is null the lookup never
  matches: the second call inserts a second row and returns a new id.
\<close>

theorem duplicate_row_for_null_region:
  "fst (insert_or_get_location 1 singapore empty_database) = Inr 1
   \<and> fst (insert_or_get_location 2 singapore (snd (insert_or_get_location 1 singapore empty_database)))
       = Inr 2
   \<and> map (\<lambda>l. (l_id l, l_name l, l_country l, l_region l))
        (locations (snd (insert_or_get_location 2 singapore
           (snd (insert_or_get_location 1 singapore empty_database)))))
       = [(1, ''Singapore'', ''Singapore'', None), (2, ''Singapore'', ''Singapore'', None)]"
  by (simp add: singapore_def place_def empty_database_def insert_or_get_location_def)




text \<open>
  Claim C10. When the query returns no row, \<^verbatim>\<open>get_recent_weather_data\<close> does not return an
  empty list: it raises \<^verbatim>\<open>UnboundLocalError\<close> for the local \<^verbatim>\<open>city_name\<close>, which the loop
  never bound.
\<close>

theorem no_rows_raises:
  assumes "reachable d"
    and "select_recent d city_names (limit * int (length city_names)) = Inr []"
  shows "get_recent_weather_data to_float d city_names limit = Inl (UnboundLocalError ''city_name'')"
  using get_recent_weather_data_eq [OF assms] by simp

theorem no_rows_raises_witness:
  "reachable london_twice
   \<and> select_recent london_twice [''Paris''] (10 * int (length [''Paris''])) = Inr []
   \<and> get_recent_weather_data (\<lambda>x. x) london_twice [''Paris''] 10 = Inl (UnboundLocalError ''city_name'')"
proof -
  have h1: "reachable london_twice"
    by (simp add: london_twice_def london_def place_def reading_def empty_database_def
      insert_or_get_location_def insert_weather_data_def Let_def)
  have h2: "select_recent london_twice [''Paris''] (10 * int (length [''Paris''])) = Inr []"
    by (simp add: london_twice_def london_def place_def reading_def empty_database_def
      insert_or_get_location_def insert_weather_data_def select_recent_def joined_rows_def
      order_by_def Let_def)
  show ?thesis
    using h1 h2 no_rows_raises [OF h1 h2, of "\<lambda>x. x"] by simp
qed

end
